theory Spec2Isabelle
  imports Complex_Main
begin

section \<open>The food forest planner (src/app.js)\<close>

text \<open>
  A shallow embedding of the planning grid and scoring engine of \<^verbatim>\<open>src/app.js\<close>:
  the grid state and the canvas click handler (placement under per-layer density caps,
  erasing), the grid-size derivation, the compatibility analysis, the companion
  suggestions, the biodiversity score and the economic projection.

  The React state cells touched by a function are passed in and returned explicitly; a
  functional updater given to \<^verbatim>\<open>setGridState\<close> is a function from the previous grid
  state to the next one.
\<close>

subsection \<open>JavaScript numbers\<close>

text \<open>
  A number is a finite real, one of the two infinities, or NaN. The arithmetic below is
  the one of JavaScript on these values, with two idealisations: finite results are
  exact (no rounding, no overflow to an infinity), and zero carries no sign (a division
  by zero takes the sign of the dividend only). The economic functions, further down,
  put a rounding after each of these operations.
\<close>

datatype jsnum = Num real | PInf | NInf | NaN

definition jinf :: "real \<Rightarrow> jsnum" where
  "jinf s = (if 0 < s then PInf else if s < 0 then NInf else NaN)"

fun jneg :: "jsnum \<Rightarrow> jsnum" where
  "jneg (Num a) = Num (- a)"
| "jneg PInf = NInf"
| "jneg NInf = PInf"
| "jneg NaN = NaN"

fun jadd :: "jsnum \<Rightarrow> jsnum \<Rightarrow> jsnum" where
  "jadd (Num a) (Num b) = Num (a + b)"
| "jadd (Num a) PInf = PInf"
| "jadd (Num a) NInf = NInf"
| "jadd PInf (Num b) = PInf"
| "jadd NInf (Num b) = NInf"
| "jadd PInf PInf = PInf"
| "jadd NInf NInf = NInf"
| "jadd PInf NInf = NaN"
| "jadd NInf PInf = NaN"
| "jadd NaN y = NaN"
| "jadd x NaN = NaN"

definition jsub :: "jsnum \<Rightarrow> jsnum \<Rightarrow> jsnum" where
  "jsub x y = jadd x (jneg y)"

fun jmul :: "jsnum \<Rightarrow> jsnum \<Rightarrow> jsnum" where
  "jmul (Num a) (Num b) = Num (a * b)"
| "jmul (Num a) PInf = jinf a"
| "jmul (Num a) NInf = jinf (- a)"
| "jmul PInf (Num b) = jinf b"
| "jmul NInf (Num b) = jinf (- b)"
| "jmul PInf PInf = PInf"
| "jmul NInf NInf = PInf"
| "jmul PInf NInf = NInf"
| "jmul NInf PInf = NInf"
| "jmul NaN y = NaN"
| "jmul x NaN = NaN"

fun jdiv :: "jsnum \<Rightarrow> jsnum \<Rightarrow> jsnum" where
  "jdiv (Num a) (Num b) = (if b = 0 then jinf a else Num (a / b))"
| "jdiv (Num a) PInf = Num 0"
| "jdiv (Num a) NInf = Num 0"
| "jdiv PInf (Num b) = (if 0 \<le> b then PInf else NInf)"
| "jdiv NInf (Num b) = (if 0 \<le> b then NInf else PInf)"
| "jdiv PInf PInf = NaN"
| "jdiv NInf NInf = NaN"
| "jdiv PInf NInf = NaN"
| "jdiv NInf PInf = NaN"
| "jdiv NaN y = NaN"
| "jdiv x NaN = NaN"

text \<open>\<^verbatim>\<open>Math.min\<close> and \<^verbatim>\<open>Math.max\<close> of two arguments: NaN as soon as one of them is.\<close>

fun Math_min :: "jsnum \<Rightarrow> jsnum \<Rightarrow> jsnum" where
  "Math_min (Num a) (Num b) = Num (min a b)"
| "Math_min (Num a) PInf = Num a"
| "Math_min PInf (Num b) = Num b"
| "Math_min PInf PInf = PInf"
| "Math_min NaN y = NaN"
| "Math_min x NaN = NaN"
| "Math_min NInf y = NInf"
| "Math_min x NInf = NInf"

fun Math_max :: "jsnum \<Rightarrow> jsnum \<Rightarrow> jsnum" where
  "Math_max (Num a) (Num b) = Num (max a b)"
| "Math_max (Num a) NInf = Num a"
| "Math_max NInf (Num b) = Num b"
| "Math_max NInf NInf = NInf"
| "Math_max NaN y = NaN"
| "Math_max x NaN = NaN"
| "Math_max PInf y = PInf"
| "Math_max x PInf = PInf"

fun Math_floor :: "jsnum \<Rightarrow> jsnum" where
  "Math_floor (Num a) = Num (of_int \<lfloor>a\<rfloor>)"
| "Math_floor x = x"

fun Math_sqrt :: "jsnum \<Rightarrow> jsnum" where
  "Math_sqrt (Num a) = (if a < 0 then NaN else Num (sqrt a))"
| "Math_sqrt PInf = PInf"
| "Math_sqrt NInf = NaN"
| "Math_sqrt NaN = NaN"

text \<open>The comparison \<^verbatim>\<open>x > y\<close>: false as soon as one side is NaN.\<close>

fun jgt :: "jsnum \<Rightarrow> jsnum \<Rightarrow> bool" where
  "jgt (Num a) (Num b) = (b < a)"
| "jgt NaN y = False"
| "jgt x NaN = False"
| "jgt PInf PInf = False"
| "jgt PInf y = True"
| "jgt NInf y = False"
| "jgt x NInf = True"
| "jgt x PInf = False"

text \<open>Truthiness of a number, as \<^verbatim>\<open>x || 0\<close> reads it: zero and NaN are falsy.\<close>

fun truthy :: "jsnum \<Rightarrow> bool" where
  "truthy (Num a) = (a \<noteq> 0)"
| "truthy NaN = False"
| "truthy x = True"

subsection \<open>Species records and the grid state\<close>

text \<open>
  A plant is a record of the species catalog (\<^verbatim>\<open>plantDatabase\<close>, imported by the
  source from a file of its own). The fields are the ones the engine reads. The catalog
  holds number literals, so its numeric fields are finite. The field \<open>plantId\<close> is the
  source's \<^verbatim>\<open>id\<close>.
\<close>

record plant =
  plantId :: nat
  name :: string
  layer :: string
  companions :: "string list"
  yieldPerYear :: real
  maturityAge :: real
  marketPrice :: real

text \<open>
  The grid state is a JavaScript object from the key \<^verbatim>\<open>`${x},${y}`\<close> to the array of
  the plants of that cell. A key is modelled by the pair of its two integers (the
  rendering of a pair as a string is injective), and the object by the list of its
  entries in property order, which for such keys is the order of insertion:
  \<^verbatim>\<open>Object.values\<close> enumerates in that order.
\<close>

type_synonym key = "int \<times> int"
type_synonym gridState = "(key \<times> plant list) list"

text \<open>\<^verbatim>\<open>prevState[key] || []\<close>\<close>

definition cellAt :: "gridState \<Rightarrow> key \<Rightarrow> plant list" where
  "cellAt prevState key = (case map_of prevState key of None \<Rightarrow> [] | Some ps \<Rightarrow> ps)"

text \<open>
  \<^verbatim>\<open>{ ...prevState, [key]: v }\<close>: an existing property keeps its place, a new one
  comes last.
\<close>

fun setProp :: "'k \<Rightarrow> 'v \<Rightarrow> ('k \<times> 'v) list \<Rightarrow> ('k \<times> 'v) list" where
  "setProp key v [] = [(key, v)]"
| "setProp key v (e # es) = (if fst e = key then (key, v) # es else e # setProp key v es)"

text \<open>\<^verbatim>\<open>Object.values(gridState).flat()\<close>\<close>

definition plantsOf :: "gridState \<Rightarrow> plant list" where
  "plantsOf gridState = concat (map snd gridState)"

subsection \<open>The canvas click handler\<close>

text \<open>
  \<^verbatim>\<open>layerCapacity[selectedPlant.layer] || 7\<close> over the object literal
  \<^verbatim>\<open>{ 'Canopy': 1, 'Shrub': 4, 'Root': 7 }\<close>. The lookup of a name that
  \<^verbatim>\<open>Object.prototype\<close> defines finds the inherited member, which is truthy and not a
  number: \<open>None\<close> stands for it, and every comparison with it is false.
\<close>

definition layerCapacity :: "(string \<times> nat) list" where
  "layerCapacity = [(''Canopy'', 1), (''Shrub'', 4), (''Root'', 7)]"

definition objectPrototypeNames :: "string list" where
  "objectPrototypeNames =
     [''constructor'', ''__proto__'', ''hasOwnProperty'', ''isPrototypeOf'',
      ''propertyIsEnumerable'', ''toLocaleString'', ''toString'', ''valueOf'',
      ''__defineGetter__'', ''__defineSetter__'', ''__lookupGetter__'', ''__lookupSetter__'']"

definition capacityOf :: "string \<Rightarrow> nat option" where
  "capacityOf l =
     (case map_of layerCapacity l of
        Some c \<Rightarrow> Some c
      | None \<Rightarrow> if l \<in> set objectPrototypeNames then None else Some 7)"

text \<open>\<^verbatim>\<open>currentPlants.filter(p => p.layer === selectedPlant.layer).length\<close>\<close>

definition layerCount :: "string \<Rightarrow> plant list \<Rightarrow> nat" where
  "layerCount l currentPlants = length (filter (\<lambda>p. layer p = l) currentPlants)"

text \<open>The updater of the plant tool.\<close>

definition plantUpdater :: "key \<Rightarrow> plant \<Rightarrow> gridState \<Rightarrow> gridState" where
  "plantUpdater key selectedPlant prevState =
     (let currentPlants = cellAt prevState key in
      case capacityOf (layer selectedPlant) of
        Some capacity \<Rightarrow>
          if layerCount (layer selectedPlant) currentPlants < capacity
          then setProp key (currentPlants @ [selectedPlant]) prevState
          else prevState
      | None \<Rightarrow> prevState)"

text \<open>The updater of the eraser: \<^verbatim>\<open>const { [key]: _, ...newState } = prevState\<close>.\<close>

definition eraserUpdater :: "key \<Rightarrow> gridState \<Rightarrow> gridState" where
  "eraserUpdater key prevState = filter (\<lambda>e. fst e \<noteq> key) prevState"

datatype tool = PlantTool | EraserTool | InfoTool

text \<open>
  The effect of \<^verbatim>\<open>handleCanvasClick\<close> on the grid state, for a click on the cell
  \<open>key\<close>. The info tool only opens a dialog.
\<close>

definition handleCanvasClick :: "tool \<Rightarrow> plant option \<Rightarrow> key \<Rightarrow> gridState \<Rightarrow> gridState" where
  "handleCanvasClick currentTool selectedPlant key gridState =
     (case (currentTool, selectedPlant) of
        (PlantTool, Some sp) \<Rightarrow> plantUpdater key sp gridState
      | (EraserTool, _) \<Rightarrow> eraserUpdater key gridState
      | _ \<Rightarrow> gridState)"

text \<open>A sequence of placements: one click with the plant tool for each entry.\<close>

fun placeAll :: "(key \<times> plant) list \<Rightarrow> gridState \<Rightarrow> gridState" where
  "placeAll [] gridState = gridState"
| "placeAll ((key, sp) # rest) gridState =
     placeAll rest (handleCanvasClick PlantTool (Some sp) key gridState)"

subsection \<open>Compatibility analysis\<close>

record analysis =
  compatibilityReport :: "string list"
  incompatiblePairs :: "string list"

text \<open>
  The body of the two nested loops of \<^verbatim>\<open>analyzePlantCompatibility\<close>, for the pair
  \<open>plantList[i]\<close>, \<open>plantList[j]\<close> with \<open>i < j\<close>. A pair that takes neither branch
  leaves both lists as they are.
\<close>

definition pairStep :: "plant \<Rightarrow> plant \<Rightarrow> analysis \<Rightarrow> analysis" where
  "pairStep plant1 plant2 r =
     (if name plant2 \<in> set (companions plant1)
      then r\<lparr>compatibilityReport :=
               compatibilityReport r @ [name plant1 @ '' and '' @ name plant2 @ '' are good companions.'']\<rparr>
      else if name plant2 \<notin> set (companions plant1) \<and> name plant1 \<notin> set (companions plant2)
      then r\<lparr>incompatiblePairs :=
               incompatiblePairs r @ [name plant1 @ '' and '' @ name plant2 @ '' may not be ideal companions.'']\<rparr>
      else r)"

text \<open>The inner loop: \<open>plant1\<close> against every later plant, in order.\<close>

fun innerLoop :: "plant \<Rightarrow> plant list \<Rightarrow> analysis \<Rightarrow> analysis" where
  "innerLoop plant1 [] r = r"
| "innerLoop plant1 (plant2 # rest) r = innerLoop plant1 rest (pairStep plant1 plant2 r)"

text \<open>The outer loop over the list of all plants.\<close>

fun outerLoop :: "plant list \<Rightarrow> analysis \<Rightarrow> analysis" where
  "outerLoop [] r = r"
| "outerLoop (plant1 # rest) r = outerLoop rest (innerLoop plant1 rest r)"

definition analyzePlantCompatibility :: "gridState \<Rightarrow> analysis" where
  "analyzePlantCompatibility gridState =
     outerLoop (plantsOf gridState) \<lparr>compatibilityReport = [], incompatiblePairs = []\<rparr>"

subsection \<open>Companion suggestions\<close>

text \<open>
  \<^verbatim>\<open>getCompanionSuggestions\<close> reads the property \<^verbatim>\<open>companions\<close> of every element
  of its argument and compares the elements with companion names. Its one caller,
  \<^verbatim>\<open>updateCompanionSuggestions\<close>, passes the array of the names of the placed plants.
  An element is therefore a string or a plant object. A string has no property
  \<^verbatim>\<open>companions\<close> (the read gives \<^verbatim>\<open>undefined\<close>, which is falsy); the array of a
  plant object is truthy. \<^verbatim>\<open>includes\<close> finds a name only among the strings.
\<close>

datatype element = Str string | Obj plant

fun companionsProperty :: "element \<Rightarrow> string list option" where
  "companionsProperty (Str s) = None"
| "companionsProperty (Obj p) = Some (companions p)"

text \<open>\<^verbatim>\<open>Set.prototype.add\<close> on a set kept in insertion order.\<close>

definition setAdd :: "'a \<Rightarrow> 'a list \<Rightarrow> 'a list" where
  "setAdd x xs = (if x \<in> set xs then xs else xs @ [x])"

definition getCompanionSuggestions :: "element list \<Rightarrow> string list" where
  "getCompanionSuggestions selectedPlants =
     foldl (\<lambda>suggestions plant.
              case companionsProperty plant of
                None \<Rightarrow> suggestions
              | Some cs \<Rightarrow>
                  foldl (\<lambda>sugg companion.
                           if Str companion \<notin> set selectedPlants then setAdd companion sugg else sugg)
                        suggestions cs)
           [] selectedPlants"

text \<open>The value \<^verbatim>\<open>updateCompanionSuggestions\<close> stores in \<^verbatim>\<open>companionSuggestions\<close>.\<close>

definition updateCompanionSuggestions :: "gridState \<Rightarrow> string list" where
  "updateCompanionSuggestions gridState =
     (let selectedPlants = map (\<lambda>plant. Str (name plant)) (plantsOf gridState) in
      getCompanionSuggestions selectedPlants)"

subsection \<open>Biodiversity score\<close>

text \<open>
  \<^verbatim>\<open>newBiodiversityScore\<close> of \<^verbatim>\<open>calculateScores\<close>; \<^verbatim>\<open>new Set(xs).size\<close> is the number
  of distinct elements of \<open>xs\<close>.
\<close>

definition newBiodiversityScore :: "gridState \<Rightarrow> nat" where
  "newBiodiversityScore gridState =
     (let plants = plantsOf gridState;
          uniqueSpecies = length (remdups (map name plants));
          layersUsed = length (remdups (map layer plants))
      in uniqueSpecies * 10 + (if layersUsed = 7 then 50 else 0))"

subsection \<open>Economic analysis\<close>

text \<open>
  The economic functions feed the results of additions, products and quotients into
  further ones, so the rounding of doubles shows in their results. An operation of
  JavaScript on two finite numbers gives the exact result rounded to a double, or an
  infinity when that overflows. The rounding is the parameter \<open>rnd\<close> of every definition
  of this section, and \<open>fl rnd\<close> applies it to a finite result; an infinity or NaN
  that the exact operation gives is the result as it is. Nothing is assumed of \<open>rnd\<close>:
  what is proved holds for every rounding, that of the doubles among them.
\<close>

definition fl :: "(real \<Rightarrow> jsnum) \<Rightarrow> jsnum \<Rightarrow> jsnum" where
  "fl rnd x = (case x of Num a \<Rightarrow> rnd a | _ \<Rightarrow> x)"

text \<open>\<^verbatim>\<open>v || 0\<close> for a number \<open>v\<close>.\<close>

definition orZero :: "jsnum \<Rightarrow> jsnum" where
  "orZero v = (if truthy v then v else Num 0)"

text \<open>
  The three constants of the body of \<^verbatim>\<open>calculateIncome\<close>, for the catalog record
  \<open>dbPlant\<close>.
\<close>

definition plantIncomeOf :: "(real \<Rightarrow> jsnum) \<Rightarrow> jsnum \<Rightarrow> plant \<Rightarrow> jsnum" where
  "plantIncomeOf rnd forestAge dbPlant =
     (let maturityFactor =
            Math_min (Num 1) (fl rnd (jdiv forestAge (Num (maturityAge dbPlant))));
          annualYield = fl rnd (jmul (Num (yieldPerYear dbPlant)) maturityFactor);
          plantIncome = fl rnd (jmul annualYield (Num (marketPrice dbPlant)))
      in plantIncome)"

text \<open>
  A value of the object \<^verbatim>\<open>newIncome\<close>: a number, or the string that \<^verbatim>\<open>+\<close> gives once
  one operand is not a number (\<open>Text\<close>; the characters of the string are not modelled,
  it is never empty).
\<close>

datatype stored = Amount jsnum | Text

text \<open>
  One round of the \<^verbatim>\<open>forEach\<close> of \<^verbatim>\<open>calculateIncome\<close>. The catalog is a parameter;
  \<^verbatim>\<open>plantDatabase.find\<close> gives the first record with the id of the placed plant. The
  object \<^verbatim>\<open>newIncome\<close> starts as \<^verbatim>\<open>{}\<close> and is the list of its own entries.

  The read \<^verbatim>\<open>newIncome[dbPlant.name]\<close> gives the own entry if there is one. If there is
  none and the name is one that \<^verbatim>\<open>Object.prototype\<close> defines, it gives the inherited
  member, a function or an object: that is truthy, and \<^verbatim>\<open>+\<close> turns it and the income
  into a string. The write then stores the string as an own entry, except under
  \<^verbatim>\<open>__proto__\<close>, whose setter ignores a string. For any other name the read gives
  \<^verbatim>\<open>undefined\<close>, and \<^verbatim>\<open>undefined || 0\<close> is 0. A stored string is truthy and stays a
  string when a number is added.
\<close>

definition incomeStep ::
  "(real \<Rightarrow> jsnum) \<Rightarrow> plant list \<Rightarrow> jsnum \<Rightarrow> (string \<times> stored) list \<Rightarrow> plant
     \<Rightarrow> (string \<times> stored) list" where
  "incomeStep rnd plantDatabase forestAge newIncome plant =
     (case find (\<lambda>p. plantId p = plantId plant) plantDatabase of
        None \<Rightarrow> newIncome
      | Some dbPlant \<Rightarrow>
          (let plantIncome = plantIncomeOf rnd forestAge dbPlant in
           case map_of newIncome (name dbPlant) of
             Some (Amount v) \<Rightarrow>
               setProp (name dbPlant) (Amount (fl rnd (jadd (orZero v) plantIncome))) newIncome
           | Some Text \<Rightarrow> setProp (name dbPlant) Text newIncome
           | None \<Rightarrow>
               if name dbPlant \<in> set objectPrototypeNames
               then (if name dbPlant = ''__proto__'' then newIncome
                     else setProp (name dbPlant) Text newIncome)
               else setProp (name dbPlant) (Amount (fl rnd (jadd (Num 0) plantIncome)))
                      newIncome))"

definition calculateIncome ::
  "(real \<Rightarrow> jsnum) \<Rightarrow> plant list \<Rightarrow> gridState \<Rightarrow> jsnum \<Rightarrow> (string \<times> stored) list" where
  "calculateIncome rnd plantDatabase gridState forestAge =
     foldl (incomeStep rnd plantDatabase forestAge) [] (plantsOf gridState)"

text \<open>
  \<^verbatim>\<open>Object.values(o).reduce((sum, val) => sum + val, 0)\<close> for an object \<open>o\<close> whose
  values are numbers, as those of the two cost objects are: \<^verbatim>\<open>Number(value)\<close> wrote
  them.
\<close>

definition reduceSum :: "(real \<Rightarrow> jsnum) \<Rightarrow> (string \<times> jsnum) list \<Rightarrow> jsnum" where
  "reduceSum rnd obj = foldl (\<lambda>sum val. fl rnd (jadd sum val)) (Num 0) (map snd obj)"

text \<open>
  The same reduction over the income object, which \<^verbatim>\<open>calculateIncome\<close> wrote and which
  may hold strings: \<^verbatim>\<open>+\<close> with a string on either side gives a string. The difference
  \<^verbatim>\<open>totalIncome - totalAnnualCosts\<close> then converts its left side to a number; a string
  made of the text of an inherited member and of numbers converts to NaN.
\<close>

fun jsPlus :: "(real \<Rightarrow> jsnum) \<Rightarrow> stored \<Rightarrow> stored \<Rightarrow> stored" where
  "jsPlus rnd (Amount a) (Amount b) = Amount (fl rnd (jadd a b))"
| "jsPlus rnd x y = Text"

definition reduceSumIncome :: "(real \<Rightarrow> jsnum) \<Rightarrow> (string \<times> stored) list \<Rightarrow> stored" where
  "reduceSumIncome rnd obj = foldl (\<lambda>sum val. jsPlus rnd sum val) (Amount (Num 0)) (map snd obj)"

fun toNumber :: "stored \<Rightarrow> jsnum" where
  "toNumber (Amount a) = a"
| "toNumber Text = NaN"

record projection =
  netProfit :: jsnum
  roi :: jsnum

definition calculateNetProfit ::
  "(real \<Rightarrow> jsnum) \<Rightarrow> (string \<times> stored) list \<Rightarrow> (string \<times> jsnum) list
     \<Rightarrow> (string \<times> jsnum) list \<Rightarrow> jsnum \<Rightarrow> projection" where
  "calculateNetProfit rnd income setupCosts annualCosts forestAge =
     (let totalIncome = reduceSumIncome rnd income;
          totalSetupCosts = reduceSum rnd setupCosts;
          totalAnnualCosts = reduceSum rnd annualCosts;
          profit = fl rnd (jsub (toNumber totalIncome) totalAnnualCosts);
          newNetProfit = fl rnd (jsub (fl rnd (jmul profit forestAge)) totalSetupCosts);
          totalCosts = fl rnd (jadd totalSetupCosts (fl rnd (jmul totalAnnualCosts forestAge)));
          newRoi = (if jgt totalCosts (Num 0)
                    then fl rnd (jmul (fl rnd (jdiv newNetProfit totalCosts)) (Num 100))
                    else Num 0)
      in \<lparr>netProfit = newNetProfit, roi = newRoi\<rparr>)"

subsection \<open>Grid size\<close>

definition ACRE_TO_SQ_FT :: real where
  "ACRE_TO_SQ_FT = 43560"

definition CELL_AREA :: real where
  "CELL_AREA = 9 * 9"

text \<open>
  The state \<^verbatim>\<open>updateGridSize\<close> reads and writes. The size mode is \<^verbatim>\<open>'acre'\<close> or
  \<^verbatim>\<open>'custom'\<close>; the three sizes are what \<^verbatim>\<open>Number\<close> makes of a number input, finite
  numbers of either sign.
\<close>

datatype mode = Acre | Custom

record planner =
  sizeMode :: mode
  propertySize :: real
  customLength :: real
  customWidth :: real
  gridSize :: jsnum
  gridState :: gridState

definition updateGridSize :: "planner \<Rightarrow> planner" where
  "updateGridSize s =
     (let newGridSize =
            (if sizeMode s = Acre
             then (let squareFeet = jmul (Num (propertySize s)) (Num ACRE_TO_SQ_FT)
                   in Math_floor (Math_sqrt (jdiv squareFeet (Num CELL_AREA))))
             else Math_floor (jdiv (Math_min (Num (customLength s)) (Num (customWidth s))) (Num 9)));
          newGridSize = Math_max newGridSize (Num 1)
      in s\<lparr>gridSize := newGridSize, gridState := []\<rparr>)"

subsection \<open>Sample species\<close>

definition mango :: plant where
  "mango = \<lparr>plantId = 1, name = ''Mango'', layer = ''Canopy'', companions = [''Lemongrass''],
             yieldPerYear = 50, maturityAge = 5, marketPrice = 2\<rparr>"

definition lemongrass :: plant where
  "lemongrass = \<lparr>plantId = 2, name = ''Lemongrass'', layer = ''Herbaceous'',
             companions = [''Mango''], yieldPerYear = 10, maturityAge = 1, marketPrice = 1\<rparr>"

definition avocado :: plant where
  "avocado = \<lparr>plantId = 3, name = ''Avocado'', layer = ''Canopy'', companions = [],
             yieldPerYear = 40, maturityAge = 4, marketPrice = 3\<rparr>"

definition comfrey :: plant where
  "comfrey = \<lparr>plantId = 4, name = ''Comfrey'', layer = ''Herbaceous'',
             companions = [''Avocado''], yieldPerYear = 5, maturityAge = 1, marketPrice = 1\<rparr>"

definition stranger :: plant where
  "stranger = \<lparr>plantId = 99, name = ''Stranger'', layer = ''Vine'', companions = [],
             yieldPerYear = 7, maturityAge = 2, marketPrice = 4\<rparr>"

definition heirloom :: plant where
  "heirloom = \<lparr>plantId = 5, name = ''constructor'', layer = ''Shrub'', companions = [],
             yieldPerYear = 10, maturityAge = 1, marketPrice = 1\<rparr>"

definition specimen :: "nat \<Rightarrow> string \<Rightarrow> plant" where
  "specimen i l = \<lparr>plantId = i, name = l @ '' plant'', layer = l, companions = [],
             yieldPerYear = 1, maturityAge = 1, marketPrice = 1\<rparr>"

subsection \<open>Notions used to state the properties\<close>

text \<open>
  The seven vertical layers: the keys of the table \<^verbatim>\<open>layerConfig\<close> of
  \<^verbatim>\<open>getPlantRepresentation\<close> and the options of the layer selector.
\<close>

definition layerNames :: "string list" where
  "layerNames =
     [''Canopy'', ''Sub-canopy'', ''Shrub'', ''Herbaceous'', ''Ground Cover'', ''Vine'', ''Root'']"

text \<open>An object whose values are finite numbers, as a cost object and as an income object.\<close>

definition finite_values :: "(string \<times> real) list \<Rightarrow> (string \<times> jsnum) list" where
  "finite_values obj = map (\<lambda>(k, v). (k, Num v)) obj"

definition finite_amounts :: "(string \<times> real) list \<Rightarrow> (string \<times> stored) list" where
  "finite_amounts obj = map (\<lambda>(k, v). (k, Amount (Num v))) obj"

text \<open>
  The catalog records that \<^verbatim>\<open>plantDatabase.find\<close> gives for a list of placed plants,
  one for each plant whose id is in the catalog, in the order of the plants.
\<close>

definition foundRecords :: "plant list \<Rightarrow> plant list \<Rightarrow> plant list" where
  "foundRecords plantDatabase plants =
     List.map_filter (\<lambda>plant. find (\<lambda>p. plantId p = plantId plant) plantDatabase) plants"

text \<open>
  The entry that the rounds of \<^verbatim>\<open>calculateIncome\<close> build from the incomes \<open>ts\<close> written
  under one name, in order: each round adds to \<^verbatim>\<open>(entry || 0)\<close>.
\<close>

definition runningSum :: "(real \<Rightarrow> jsnum) \<Rightarrow> jsnum list \<Rightarrow> jsnum" where
  "runningSum rnd ts = foldl (\<lambda>acc t. fl rnd (jadd (orZero acc) t)) (Num 0) ts"

text \<open>The comparison \<^verbatim>\<open>x <= y\<close> of JavaScript: false as soon as one side is NaN.\<close>

fun jle :: "jsnum \<Rightarrow> jsnum \<Rightarrow> bool" where
  "jle (Num a) (Num b) = (a \<le> b)"
| "jle NaN y = False"
| "jle x NaN = False"
| "jle NInf y = True"
| "jle x PInf = True"
| "jle PInf y = False"
| "jle x NInf = False"

section \<open>Properties\<close>

subsection \<open>The grid state as a map\<close>

lemma map_of_setProp: "map_of (setProp k v g) = (map_of g)(k \<mapsto> v)"
  by (induction g) (auto simp: fun_eq_iff)

lemma cellAt_setProp: "cellAt (setProp k v g) k' = (if k' = k then v else cellAt g k')"
  by (simp add: cellAt_def map_of_setProp)

lemma cellAt_eraserUpdater:
  "cellAt (eraserUpdater k g) k' = (if k' = k then [] else cellAt g k')"
  by (induction g) (auto simp: cellAt_def eraserUpdater_def)

lemma cellAt_empty: "cellAt [] k = []"
  by (simp add: cellAt_def)

subsection \<open>Density caps\<close>

lemma capacityOf_value:
  "capacityOf L = Some c \<Longrightarrow>
     c = (if L = ''Canopy'' then 1 else if L = ''Shrub'' then 4 else 7)"
  by (auto simp: capacityOf_def layerCapacity_def split: if_splits)

lemma layerCount_snoc:
  "layerCount L (ps @ [p]) = layerCount L ps + (if layer p = L then 1 else 0)"
  by (simp add: layerCount_def)

text \<open>
  A placement keeps every bound \<open>B\<close> on the per-layer counts that dominates the
  capacities the handler reads.
\<close>

lemma plantUpdater_keeps_bound:
  assumes B: "\<And>l cap. capacityOf l = Some cap \<Longrightarrow> cap \<le> B l"
    and inv: "layerCount L (cellAt g c) \<le> B L"
  shows "layerCount L (cellAt (plantUpdater k sp g) c) \<le> B L"
proof (cases "capacityOf (layer sp)")
  case None
  then show ?thesis using inv by (simp add: plantUpdater_def)
next
  case (Some cap)
  show ?thesis
  proof (cases "layerCount (layer sp) (cellAt g k) < cap")
    case False
    then show ?thesis using Some inv by (simp add: plantUpdater_def)
  next
    case True
    then have upd: "plantUpdater k sp g = setProp k (cellAt g k @ [sp]) g"
      using Some by (simp add: plantUpdater_def)
    show ?thesis
    proof (cases "c = k \<and> layer sp = L")
      case True
      with \<open>layerCount (layer sp) (cellAt g k) < cap\<close> B [OF Some] show ?thesis
        by (simp add: upd cellAt_setProp layerCount_snoc)
    next
      case False
      then show ?thesis using inv
        by (auto simp: upd cellAt_setProp layerCount_snoc)
    qed
  qed
qed

lemma placeAll_keeps_bound:
  assumes B: "\<And>l cap. capacityOf l = Some cap \<Longrightarrow> cap \<le> B l"
  shows "(\<And>L c. layerCount L (cellAt g c) \<le> B L) \<Longrightarrow>
   layerCount L (cellAt (placeAll ops g) c) \<le> B L"
proof (induction ops arbitrary: g)
  case Nil
  then show ?case by simp
next
  case (Cons a ops)
  obtain k sp where a: "a = (k, sp)" by (cases a)
  have step: "layerCount L' (cellAt (handleCanvasClick PlantTool (Some sp) k g) c') \<le> B L'"
    for L' c'
  proof -
    have "layerCount L' (cellAt (plantUpdater k sp g) c') \<le> B L'"
      by (rule plantUpdater_keeps_bound) (erule B, rule Cons.prems)
    then show ?thesis by (simp add: handleCanvasClick_def)
  qed
  show ?case unfolding a placeAll.simps
    by (rule Cons.IH) (rule step)
qed

lemma over_cap_rejected:
  assumes "\<And>cap. capacityOf (layer sp) = Some cap \<Longrightarrow> cap \<le> layerCount (layer sp) (cellAt g k)"
  shows "handleCanvasClick PlantTool (Some sp) k g = g"
  using assms
  by (cases "capacityOf (layer sp)") (auto simp: handleCanvasClick_def plantUpdater_def)

text \<open>
  Claim C3. After any sequence of placements from the empty grid, every cell holds at
  most 1 plant of the layer Canopy, 4 of Shrub, 7 of Root and 7 of any other layer; and a
  placement into a cell whose count for the plant's layer has reached the cap gives back
  the grid it was given. The handler has no error value: it is a total function to grid
  states.
\<close>

theorem density_cap_invariant:
  "layerCount L (cellAt (placeAll ops []) c)
       \<le> (if L = ''Canopy'' then 1 else if L = ''Shrub'' then 4 else if L = ''Root'' then 7 else 7)
   \<and> ((if layer sp = ''Canopy'' then 1 else if layer sp = ''Shrub'' then 4
         else if layer sp = ''Root'' then 7 else 7)
         \<le> layerCount (layer sp) (cellAt g k)
       \<longrightarrow> handleCanvasClick PlantTool (Some sp) k g = g)"
proof (intro conjI impI)
  define B :: "string \<Rightarrow> nat"
    where "B l = (if l = ''Canopy'' then 1 else if l = ''Shrub'' then 4 else 7)" for l
  have B: "cap \<le> B l" if "capacityOf l = Some cap" for l cap
    using capacityOf_value [OF that] by (simp add: B_def)
  have "layerCount L (cellAt (placeAll ops []) c) \<le> B L"
    by (rule placeAll_keeps_bound [OF B]) (simp_all add: cellAt_empty layerCount_def)
  then show "layerCount L (cellAt (placeAll ops []) c)
       \<le> (if L = ''Canopy'' then 1 else if L = ''Shrub'' then 4 else if L = ''Root'' then 7 else 7)"
    by (auto simp: B_def split: if_splits)
next
  assume over: "(if layer sp = ''Canopy'' then 1 else if layer sp = ''Shrub'' then 4
         else if layer sp = ''Root'' then 7 else 7)
         \<le> layerCount (layer sp) (cellAt g k)"
  show "handleCanvasClick PlantTool (Some sp) k g = g"
  proof (rule over_cap_rejected)
    fix cap assume "capacityOf (layer sp) = Some cap"
    from capacityOf_value [OF this] over
    show "cap \<le> layerCount (layer sp) (cellAt g k)" by (simp split: if_splits)
  qed
qed

theorem density_cap_invariant_witness:
  "layerCount ''Canopy''
     (cellAt (placeAll [((0, 0), mango), ((0, 0), lemongrass), ((0, 0), avocado)] []) (0, 0)) \<le> 1
   \<and> 1 \<le> layerCount (layer avocado) (cellAt [((0, 0), [mango, lemongrass])] (0, 0))
   \<and> handleCanvasClick PlantTool (Some avocado) (0, 0) [((0, 0), [mango, lemongrass])]
         = [((0, 0), [mango, lemongrass])]"
  using density_cap_invariant [of "''Canopy''"
      "[((0, 0), mango), ((0, 0), lemongrass), ((0, 0), avocado)]" "(0, 0)"
      avocado "[((0, 0), [mango, lemongrass])]" "(0, 0)"]
  by (simp add: cellAt_def layerCount_def mango_def lemongrass_def avocado_def)

subsection \<open>Erasing a cell\<close>

lemma eraserUpdater_absent: "map_of g c = None \<Longrightarrow> eraserUpdater c g = g"
  by (induction g) (auto simp: eraserUpdater_def split: if_splits)

lemma map_of_eraserUpdater: "map_of (eraserUpdater c g) = (map_of g)(c := None)"
  by (induction g) (auto simp: eraserUpdater_def fun_eq_iff)

text \<open>
  Claim C6. A click with the eraser on the cell \<open>c\<close> removes the whole entry of \<open>c\<close>, so
  that no plant is left there; on a grid with no entry for \<open>c\<close> it gives back the same
  grid; and erasing twice is erasing once.
\<close>

theorem erase_cell:
  "map_of (handleCanvasClick EraserTool sel c g) c = None
   \<and> cellAt (handleCanvasClick EraserTool sel c g) c = []
   \<and> (map_of g c = None \<longrightarrow> handleCanvasClick EraserTool sel c g = g)
   \<and> handleCanvasClick EraserTool sel c (handleCanvasClick EraserTool sel c g)
        = handleCanvasClick EraserTool sel c g"
  by (simp add: handleCanvasClick_def cellAt_eraserUpdater map_of_eraserUpdater
      eraserUpdater_absent)

theorem erase_cell_witness:
  "map_of [((0, 0) :: key, [mango, lemongrass])] (1, 1) = None
   \<and> handleCanvasClick EraserTool None (1, 1) [((0, 0), [mango, lemongrass])]
        = [((0, 0), [mango, lemongrass])]
   \<and> handleCanvasClick EraserTool None (0, 0) [((0, 0), [mango, lemongrass]), ((1, 0), [avocado])]
        = [((1, 0), [avocado])]"
  using erase_cell [of None "(1, 1)" "[((0, 0), [mango, lemongrass])]"]
  by (simp add: handleCanvasClick_def eraserUpdater_def)

subsection \<open>Other cells are left alone\<close>

lemma map_of_plantUpdater_other:
  "c' \<noteq> c \<Longrightarrow> map_of (plantUpdater c sp g) c' = map_of g c'"
  by (simp add: plantUpdater_def map_of_setProp Let_def split: option.splits)

text \<open>
  Claim C10. A click on the cell \<open>c\<close> leaves the plants of every other cell \<open>c'\<close> as
  they were: a placement, accepted or rejected, and an erasure; and so does a click
  with any tool and any selection, for the entry of \<open>c'\<close> itself.
\<close>

theorem click_frame:
  "c \<noteq> c' \<Longrightarrow>
     cellAt (handleCanvasClick PlantTool (Some sp) c g) c' = cellAt g c'
   \<and> cellAt (handleCanvasClick EraserTool sel c g) c' = cellAt g c'
   \<and> map_of (handleCanvasClick t sel c g) c' = map_of g c'"
  by (cases t; cases sel)
     (auto simp: handleCanvasClick_def cellAt_def map_of_plantUpdater_other map_of_eraserUpdater)

theorem click_frame_witness:
  "(0, 0) \<noteq> ((1, 0) :: key)
   \<and> cellAt (handleCanvasClick PlantTool (Some lemongrass) (0, 0)
               [((0, 0), [mango]), ((1, 0), [avocado])]) (1, 0) = [avocado]
   \<and> cellAt (handleCanvasClick PlantTool (Some avocado) (0, 0)
               [((0, 0), [mango]), ((1, 0), [avocado])]) (1, 0) = [avocado]
   \<and> cellAt (handleCanvasClick EraserTool None (0, 0)
               [((0, 0), [mango]), ((1, 0), [avocado])]) (1, 0) = [avocado]"
  using click_frame [of "(0, 0)" "(1, 0)" lemongrass "[((0, 0), [mango]), ((1, 0), [avocado])]"
      None PlantTool]
    click_frame [of "(0, 0)" "(1, 0)" avocado "[((0, 0), [mango]), ((1, 0), [avocado])]"
      None PlantTool]
  by (simp add: cellAt_def)

subsection \<open>Resizing\<close>

text \<open>
  Claim C5. Whatever the state before it and whatever the new size, the grid-size
  update leaves a grid state with no entry: no cell holds a plant.
\<close>

theorem resize_clears:
  "gridState (updateGridSize s) = [] \<and> plantsOf (gridState (updateGridSize s)) = []
   \<and> cellAt (gridState (updateGridSize s)) c = []"
  by (simp add: updateGridSize_def Let_def plantsOf_def cellAt_def)

subsection \<open>Grid size\<close>

lemma acre_grid_size:
  "sizeMode s = Acre \<Longrightarrow> 0 \<le> propertySize s \<Longrightarrow>
     gridSize (updateGridSize s)
       = Num (max (of_int \<lfloor>sqrt (propertySize s * 43560 / 81)\<rfloor>) 1)"
  by (simp add: updateGridSize_def Let_def ACRE_TO_SQ_FT_def CELL_AREA_def not_less
      zero_le_mult_iff)

lemma custom_grid_size:
  "sizeMode s = Custom \<Longrightarrow>
     gridSize (updateGridSize s)
       = Num (max (of_int \<lfloor>min (customLength s) (customWidth s) / 9\<rfloor>) 1)"
  by (simp add: updateGridSize_def Let_def)

lemma floor_sqrt_one_acre: "\<lfloor>sqrt (43560 / 81 :: real)\<rfloor> = 23"
proof -
  have "(23::real) \<le> sqrt (43560 / 81)"
    by (rule real_le_rsqrt) (simp add: power2_eq_square)
  moreover have "sqrt (43560 / 81 :: real) < 24"
    by (rule real_less_lsqrt) (simp_all add: power2_eq_square)
  ultimately show ?thesis by (simp add: floor_eq_iff)
qed

lemma one_acre_grid_size:
  "gridSize (updateGridSize \<lparr>sizeMode = Acre, propertySize = 1, customLength = 0,
      customWidth = 0, gridSize = Num 21, gridState = []\<rparr>) = Num 23"
  using floor_sqrt_one_acre
  by (simp add: updateGridSize_def Let_def ACRE_TO_SQ_FT_def CELL_AREA_def)

lemma negative_acres_NaN:
  "sizeMode s = Acre \<Longrightarrow> propertySize s < 0 \<Longrightarrow> gridSize (updateGridSize s) = NaN"
  by (simp add: updateGridSize_def Let_def ACRE_TO_SQ_FT_def CELL_AREA_def
      mult_less_0_iff divide_less_0_iff)

text \<open>
  Claim C4. The two formulas hold where the square root is defined
  (\<open>acre_grid_size\<close>, \<open>custom_grid_size\<close>), with the lower bound 1, and one acre gives
  23 (\<open>one_acre_grid_size\<close>). The lower bound fails for a negative size in acre mode:
  \<^verbatim>\<open>Math.sqrt\<close> of a negative number is NaN, \<^verbatim>\<open>Math.floor\<close> keeps it, and
  \<^verbatim>\<open>Math.max(NaN, 1)\<close> is NaN. At \<open>propertySize = -1\<close> the grid size is NaN, not 1.
\<close>

theorem negative_acres_not_clamped:
  "gridSize (updateGridSize \<lparr>sizeMode = Acre, propertySize = - 1, customLength = 0,
      customWidth = 0, gridSize = Num 21, gridState = []\<rparr>) = NaN"
  by (simp add: updateGridSize_def Let_def ACRE_TO_SQ_FT_def CELL_AREA_def)

subsection \<open>Compatibility analysis\<close>

text \<open>The three outcomes of the loop body for a pair \<open>(a, b)\<close>, \<open>a\<close> before \<open>b\<close>.\<close>

lemma pairStep_cases:
  "pairStep a b r =
     (if name b \<in> set (companions a)
      then r\<lparr>compatibilityReport :=
               compatibilityReport r @ [name a @ '' and '' @ name b @ '' are good companions.'']\<rparr>
      else if name a \<in> set (companions b) then r
      else r\<lparr>incompatiblePairs :=
               incompatiblePairs r @ [name a @ '' and '' @ name b @ '' may not be ideal companions.'']\<rparr>)"
  by (simp add: pairStep_def)

text \<open>
  Claim C1. A pair in which only the later plant lists the earlier one takes neither
  branch: Comfrey lists Avocado, Avocado lists nothing, and with Avocado placed first
  the analysis reports the pair in neither list. With Comfrey placed first the same two
  plants are reported as good companions.
\<close>

theorem one_sided_pair_unclassified:
  "name avocado \<in> set (companions comfrey)
   \<and> analyzePlantCompatibility [((0, 0), [avocado, comfrey])]
        = \<lparr>compatibilityReport = [], incompatiblePairs = []\<rparr>
   \<and> analyzePlantCompatibility [((0, 0), [comfrey, avocado])]
        = \<lparr>compatibilityReport = [''Comfrey and Avocado are good companions.''],
            incompatiblePairs = []\<rparr>"
  by (simp add: analyzePlantCompatibility_def plantsOf_def pairStep_def avocado_def comfrey_def)

subsection \<open>Companion suggestions\<close>

lemma getCompanionSuggestions_strings:
  "getCompanionSuggestions (map Str names) = []"
proof -
  have "foldl (\<lambda>suggestions plant.
              case companionsProperty plant of
                None \<Rightarrow> suggestions
              | Some cs \<Rightarrow>
                  foldl (\<lambda>sugg companion.
                           if Str companion \<notin> S then setAdd companion sugg else sugg)
                        suggestions cs)
           acc (map Str ns) = acc" for S acc ns
    by (induction ns arbitrary: acc) simp_all
  then show ?thesis by (simp add: getCompanionSuggestions_def)
qed

text \<open>The suggestions computed from a grid state are empty, whatever the grid holds.\<close>

lemma updateCompanionSuggestions_empty: "updateCompanionSuggestions g = []"
  using getCompanionSuggestions_strings [of "map name (plantsOf g)"]
  by (simp add: updateCompanionSuggestions_def comp_def)

text \<open>
  Claim C2. With Mango alone on the grid, Mango lists Lemongrass, Lemongrass is not
  placed, and the suggestions are empty: the function reads \<^verbatim>\<open>companions\<close> off the
  names it is given. Given the plant objects themselves it would compare objects with
  names and suggest every companion, placed or not.
\<close>

theorem suggestions_missing:
  "''Lemongrass'' \<in> set (companions mango)
   \<and> ''Lemongrass'' \<notin> set (map name (plantsOf [((0, 0), [mango])]))
   \<and> updateCompanionSuggestions [((0, 0), [mango])] = []
   \<and> getCompanionSuggestions [Obj mango, Obj lemongrass] = [''Lemongrass'', ''Mango'']"
  by (simp add: updateCompanionSuggestions_def getCompanionSuggestions_def plantsOf_def
      setAdd_def mango_def lemongrass_def)

subsection \<open>Biodiversity score\<close>

lemma card_layerNames: "card (set layerNames) = 7"
proof -
  have "distinct layerNames" by (simp add: layerNames_def)
  then have "card (set layerNames) = length layerNames" by (rule distinct_card)
  then show ?thesis by (simp add: layerNames_def)
qed

lemma newBiodiversityScore_card:
  "newBiodiversityScore g =
     card (name ` set (plantsOf g)) * 10
       + (if card (layer ` set (plantsOf g)) = 7 then 50 else 0)"
  by (simp add: newBiodiversityScore_def Let_def length_remdups_card_conv)

lemma plantsOf_setProp_snoc:
  "set (plantsOf (setProp k (cellAt g k @ [p]) g)) = insert p (set (plantsOf g))"
  by (induction g) (auto simp: plantsOf_def cellAt_def)

lemma plantsOf_click:
  "set (plantsOf (handleCanvasClick PlantTool (Some p) k g)) = set (plantsOf g)
   \<or> set (plantsOf (handleCanvasClick PlantTool (Some p) k g)) = insert p (set (plantsOf g))"
  by (auto simp: handleCanvasClick_def plantUpdater_def Let_def plantsOf_setProp_snoc
      split: option.splits)

text \<open>
  One more plant with a new name adds 10; the bonus of 50 stays, since a set of seven
  layers among the seven layer names is all of them.
\<close>

lemma score_insert_mono:
  assumes new: "name p \<notin> name ` A" and fin: "finite A"
    and lay: "layer ` A \<subseteq> set layerNames" "layer p \<in> set layerNames"
  shows "card (name ` A) * 10 + (if card (layer ` A) = 7 then 50 else 0) + 10
       \<le> card (name ` insert p A) * 10 + (if card (layer ` insert p A) = 7 then (50::nat) else 0)"
proof -
  have names: "card (insert (name p) (name ` A)) = Suc (card (name ` A))"
    using new fin by simp
  show ?thesis
  proof (cases "card (layer ` A) = 7")
    case False
    then show ?thesis by (simp add: names)
  next
    case True
    have "layer ` A = set layerNames"
      by (rule card_subset_eq) (simp_all add: lay True card_layerNames)
    then have "insert (layer p) (layer ` A) = layer ` A" using lay(2) by auto
    then show ?thesis by (simp add: names True)
  qed
qed

text \<open>
  Claim C9, as amended. The biodiversity score is ten times the number of distinct names
  of the placed plants, plus 50 exactly when the number of distinct layers is 7. For plants
  whose layers are among the seven layer names, a grid that holds one more plant, of a
  name not on the grid before, scores at least 10 more; and a click that places such a
  plant, accepted or rejected, never lowers the score.
\<close>

theorem biodiversity_score:
  "newBiodiversityScore g =
     card (name ` set (plantsOf g)) * 10
       + (if card (layer ` set (plantsOf g)) = 7 then 50 else 0)
   \<and> (name p \<notin> name ` set (plantsOf g)
        \<and> layer ` set (plantsOf g) \<subseteq> set layerNames \<and> layer p \<in> set layerNames
        \<and> set (plantsOf g') = insert p (set (plantsOf g))
      \<longrightarrow> newBiodiversityScore g + 10 \<le> newBiodiversityScore g')
   \<and> (name p \<notin> name ` set (plantsOf g)
        \<and> layer ` set (plantsOf g) \<subseteq> set layerNames \<and> layer p \<in> set layerNames
      \<longrightarrow> newBiodiversityScore g
            \<le> newBiodiversityScore (handleCanvasClick PlantTool (Some p) k g))"
proof -
  have ins: "newBiodiversityScore g + 10 \<le> newBiodiversityScore g2"
    if "name p \<notin> name ` set (plantsOf g)" "layer ` set (plantsOf g) \<subseteq> set layerNames"
      "layer p \<in> set layerNames" "set (plantsOf g2) = insert p (set (plantsOf g))" for g2
    unfolding newBiodiversityScore_card that(4)
    using that(1-3) by (intro score_insert_mono) simp_all
  have click: "newBiodiversityScore g
            \<le> newBiodiversityScore (handleCanvasClick PlantTool (Some p) k g)"
    if "name p \<notin> name ` set (plantsOf g)" "layer ` set (plantsOf g) \<subseteq> set layerNames"
      "layer p \<in> set layerNames"
    using plantsOf_click [of p k g]
  proof
    assume "set (plantsOf (handleCanvasClick PlantTool (Some p) k g)) = set (plantsOf g)"
    then show ?thesis by (simp add: newBiodiversityScore_card)
  next
    assume "set (plantsOf (handleCanvasClick PlantTool (Some p) k g)) = insert p (set (plantsOf g))"
    from ins [OF that this] show ?thesis by simp
  qed
  show ?thesis
    using ins [of g'] click by (simp add: newBiodiversityScore_card [symmetric])
qed

theorem biodiversity_score_witness:
  "newBiodiversityScore [((0, 0), [mango])] = 10
   \<and> name lemongrass \<notin> name ` set (plantsOf [((0, 0), [mango])])
   \<and> layer ` set (plantsOf [((0, 0), [mango])]) \<subseteq> set layerNames
   \<and> layer lemongrass \<in> set layerNames
   \<and> newBiodiversityScore [((0, 0), [mango])]
        \<le> newBiodiversityScore
             (handleCanvasClick PlantTool (Some lemongrass) (0, 0) [((0, 0), [mango])])
   \<and> newBiodiversityScore [((0, 0), [mango, lemongrass])] = 20"
  using biodiversity_score [of "[((0, 0), [mango])]" lemongrass
      "[((0, 0), [mango, lemongrass])]" "(0, 0)"]
  by (simp add: plantsOf_def layerNames_def mango_def lemongrass_def newBiodiversityScore_def)

text \<open>
  Claim C9, the claim as it stands. The test is \<^verbatim>\<open>layersUsed === 7\<close> and a layer is any
  string: on a cell that holds one plant of each of the seven layers, a plant of the
  layer Aquatic has a new name, is placed, and takes the score from 120 to 80.
\<close>

theorem eighth_layer_counterexample:
  "name (specimen 7 ''Aquatic'')
       \<notin> name ` set (plantsOf [((0, 0), map2 specimen [0, 1, 2, 3, 4, 5, 6] layerNames)])
   \<and> handleCanvasClick PlantTool (Some (specimen 7 ''Aquatic'')) (0, 0)
         [((0, 0), map2 specimen [0, 1, 2, 3, 4, 5, 6] layerNames)]
       = [((0, 0), map2 specimen [0, 1, 2, 3, 4, 5, 6] layerNames @ [specimen 7 ''Aquatic''])]
   \<and> newBiodiversityScore [((0, 0), map2 specimen [0, 1, 2, 3, 4, 5, 6] layerNames)] = 120
   \<and> newBiodiversityScore
       (handleCanvasClick PlantTool (Some (specimen 7 ''Aquatic'')) (0, 0)
         [((0, 0), map2 specimen [0, 1, 2, 3, 4, 5, 6] layerNames)]) = 80"
  by (simp add: newBiodiversityScore_def plantsOf_def layerNames_def specimen_def
      handleCanvasClick_def plantUpdater_def cellAt_def capacityOf_def layerCapacity_def
      objectPrototypeNames_def layerCount_def)

subsection \<open>Net profit and return on investment\<close>

lemma not_jgt_zero: "(\<not> jgt x (Num 0)) = (x = NaN \<or> jle x (Num 0))"
  by (cases x) auto

text \<open>
  Claim C8, as amended. In the arithmetic of JavaScript, with the sums taken from left
  to right, the net profit is \<open>(\<Sum>income - \<Sum>annualCosts) \<times> forestAge - \<Sum>setupCosts\<close>; the
  return on investment is 0 when the denominator
  \<open>\<Sum>setupCosts + \<Sum>annualCosts \<times> forestAge\<close>, as computed, is NaN or is \<open>\<le> 0\<close>, and is the
  net profit over the denominator, times 100, otherwise. This holds for all numbers,
  the infinities and NaN included, and for every rounding; the division takes place
  only by a denominator greater than 0. (The sum of the incomes counts as NaN when the
  income object holds a string.)
\<close>

theorem net_profit_and_roi:
  "calculateNetProfit rnd income setupCosts annualCosts forestAge =
     (let netProfit =
            fl rnd (jsub (fl rnd (jmul (fl rnd (jsub (toNumber (reduceSumIncome rnd income))
                                                   (reduceSum rnd annualCosts)))
                                   forestAge))
                         (reduceSum rnd setupCosts));
          denominator =
            fl rnd (jadd (reduceSum rnd setupCosts) (fl rnd (jmul (reduceSum rnd annualCosts) forestAge)))
      in \<lparr>netProfit = netProfit,
          roi = (if denominator = NaN \<or> jle denominator (Num 0) then Num 0
                 else fl rnd (jmul (fl rnd (jdiv netProfit denominator)) (Num 100)))\<rparr>)"
  by (simp add: calculateNetProfit_def Let_def not_jgt_zero [symmetric])

text \<open>With no rounding, the sum of an object of finite numbers is the sum of its values.\<close>

lemma reduceSum_exact: "reduceSum Num (finite_values obj) = Num (sum_list (map snd obj))"
proof -
  have "foldl (\<lambda>sum val. fl Num (jadd sum val)) (Num a) (map Num vs) = Num (a + sum_list vs)"
    for a vs
    by (induction vs arbitrary: a) (simp_all add: add.assoc fl_def)
  moreover have "map snd (finite_values obj) = map Num (map snd obj)"
    by (induction obj) (auto simp: finite_values_def)
  ultimately show ?thesis using reduceSum_def by (metis add_0)
qed

lemma reduceSumIncome_exact:
  "reduceSumIncome Num (finite_amounts obj) = Amount (Num (sum_list (map snd obj)))"
proof -
  have "foldl (\<lambda>sum val. jsPlus Num sum val) (Amount (Num a)) (map (\<lambda>v. Amount (Num v)) vs)
          = Amount (Num (a + sum_list vs))" for a vs
    by (induction vs arbitrary: a) (simp_all add: add.assoc fl_def)
  moreover have "map snd (finite_amounts obj) = map (\<lambda>v. Amount (Num v)) (map snd obj)"
    by (induction obj) (auto simp: finite_amounts_def)
  ultimately show ?thesis using reduceSumIncome_def by (metis add_0)
qed

theorem net_profit_and_roi_witness:
  "calculateNetProfit Num (finite_amounts [(''Mango'', 100), (''Lemongrass'', 10)])
       (finite_values [(''landCost'', 10000), (''soilPreparation'', 2000), (''irrigation'', 3000),
          (''initialPlants'', 1000), (''tools'', 500)])
       (finite_values [(''maintenance'', 1000), (''water'', 500), (''additionalPlants'', 200)])
       (Num 5)
     = \<lparr>netProfit = Num (- 24450), roi = Num (- 97.8)\<rparr>
   \<and> calculateNetProfit Num (finite_amounts [(''Mango'', 100)]) [] [] (Num 5)
     = \<lparr>netProfit = Num 500, roi = Num 0\<rparr>"
  using net_profit_and_roi [of Num "finite_amounts [(''Mango'', 100), (''Lemongrass'', 10)]"
      "finite_values [(''landCost'', 10000), (''soilPreparation'', 2000), (''irrigation'', 3000),
          (''initialPlants'', 1000), (''tools'', 500)]"
      "finite_values [(''maintenance'', 1000), (''water'', 500), (''additionalPlants'', 200)]"
      "Num 5"]
    net_profit_and_roi [of Num "finite_amounts [(''Mango'', 100)]" "[]" "[]" "Num 5"]
  by (simp add: reduceSum_exact reduceSumIncome_exact Let_def fl_def jsub_def) (simp add: reduceSum_def)

text \<open>
  Claim C8, the claim as it stands. A denominator that is NaN is not \<open>\<le> 0\<close>, and the
  quotient the claim gives for it is NaN, yet the guard \<^verbatim>\<open>totalCosts > 0\<close> is false and
  the return on investment is 0: with setup costs that sum to \<open>Infinity\<close> and annual
  costs that sum to \<open>-Infinity\<close>, at forest age 1.
\<close>

theorem roi_NaN_denominator_counterexample:
  "reduceSum Num [(''landCost'', PInf)] = PInf
   \<and> reduceSum Num [(''maintenance'', NInf)] = NInf
   \<and> fl Num (jadd PInf (fl Num (jmul NInf (Num 1)))) = NaN
   \<and> \<not> jle NaN (Num 0)
   \<and> netProfit (calculateNetProfit Num [] [(''landCost'', PInf)] [(''maintenance'', NInf)] (Num 1))
       = NaN
   \<and> fl Num (jmul (fl Num (jdiv NaN NaN)) (Num 100)) = NaN
   \<and> roi (calculateNetProfit Num [] [(''landCost'', PInf)] [(''maintenance'', NInf)] (Num 1))
       = Num 0"
  by (simp add: calculateNetProfit_def reduceSum_def reduceSumIncome_def fl_def jsub_def jinf_def
      Let_def)

text \<open>The same under every rounding: no finite number is rounded on the way.\<close>

lemma roi_NaN_denominator_any_rounding:
  "calculateNetProfit rnd [] [(''landCost'', PInf)] [(''maintenance'', NInf)] (Num 1)
     = \<lparr>netProfit = NaN, roi = Num 0\<rparr>"
  by (simp add: calculateNetProfit_def reduceSum_def reduceSumIncome_def fl_def jsub_def jinf_def
      Let_def)

text \<open>
  With no rounding and finite numbers, the two results are the expressions over the
  reals.
\<close>

lemma net_profit_and_roi_exact:
  "calculateNetProfit Num (finite_amounts income) (finite_values setupCosts)
       (finite_values annualCosts) (Num forestAge)
     = \<lparr>netProfit =
          Num ((sum_list (map snd income) - sum_list (map snd annualCosts)) * forestAge
                 - sum_list (map snd setupCosts)),
        roi =
          Num (if sum_list (map snd setupCosts) + sum_list (map snd annualCosts) * forestAge \<le> 0
               then 0
               else ((sum_list (map snd income) - sum_list (map snd annualCosts)) * forestAge
                       - sum_list (map snd setupCosts))
                    / (sum_list (map snd setupCosts) + sum_list (map snd annualCosts) * forestAge)
                    * 100)\<rparr>"
  by (simp add: calculateNetProfit_def Let_def reduceSum_exact reduceSumIncome_exact jsub_def fl_def
      not_le)

subsection \<open>Income\<close>

text \<open>
  Claim C7. A species whose name is a member name of \<^verbatim>\<open>Object.prototype\<close> gets no sum:
  for the catalog record named \<open>constructor\<close>, found by its id and with an income of
  10 at forest age 1, the projection stores a string under that name, with one such
  plant on the grid and with two.
\<close>

theorem inherited_name_stores_text:
  "find (\<lambda>p. plantId p = plantId heirloom) [mango, heirloom] = Some heirloom
   \<and> plantIncomeOf Num (Num 1) heirloom = Num 10
   \<and> calculateIncome rnd [mango, heirloom] [((0, 0), [heirloom])] (Num 1)
        = [(''constructor'', Text)]
   \<and> calculateIncome rnd [mango, heirloom] [((0, 0), [heirloom]), ((1, 0), [heirloom])] (Num 1)
        = [(''constructor'', Text)]"
  by (simp add: calculateIncome_def incomeStep_def plantsOf_def heirloom_def mango_def
      objectPrototypeNames_def plantIncomeOf_def fl_def Let_def)

text \<open>
  For every other name the projection is the one the claim describes, in the arithmetic
  of JavaScript: an entry exactly for the names of the catalog records found, built
  from the incomes of the records of that name in the order of the plants. A plant
  whose id finds no record changes nothing.
\<close>

lemma foundRecords_snoc:
  "foundRecords db (ps @ [p]) =
     foundRecords db ps
       @ (case find (\<lambda>q. plantId q = plantId p) db of None \<Rightarrow> [] | Some d \<Rightarrow> [d])"
  by (simp add: foundRecords_def List.map_filter_def split: option.splits)

lemma incomeStep_not_found:
  "find (\<lambda>q. plantId q = plantId p) db = None \<Longrightarrow> incomeStep rnd db age acc p = acc"
  by (simp add: incomeStep_def)

lemma incomeStep_other_name:
  "find (\<lambda>q. plantId q = plantId p) db = Some d \<Longrightarrow> name d \<noteq> n \<Longrightarrow>
     map_of (incomeStep rnd db age acc p) n = map_of acc n"
  by (auto simp: incomeStep_def Let_def map_of_setProp split: option.splits stored.splits)

lemma runningSum_snoc:
  "runningSum rnd (ts @ [t]) = fl rnd (jadd (orZero (runningSum rnd ts)) t)"
  by (simp add: runningSum_def)

lemma income_fold:
  assumes n: "n \<notin> set objectPrototypeNames"
  shows "map_of (foldl (incomeStep rnd db age) [] ps) n =
           (if n \<in> name ` set (foundRecords db ps)
            then Some (Amount (runningSum rnd (map (plantIncomeOf rnd age)
                   (filter (\<lambda>d. name d = n) (foundRecords db ps)))))
            else None)"
proof (induction ps rule: rev_induct)
  case Nil
  then show ?case by (simp add: foundRecords_def List.map_filter_def)
next
  case (snoc p ps)
  show ?case
  proof (cases "find (\<lambda>q. plantId q = plantId p) db")
    case None
    then show ?thesis using snoc.IH
      by (simp add: foundRecords_snoc incomeStep_not_found)
  next
    case (Some d)
    show ?thesis
    proof (cases "name d = n")
      case False
      then show ?thesis using snoc.IH incomeStep_other_name [OF Some False]
        by (simp add: foundRecords_snoc Some)
    next
      case True
      show ?thesis
      proof (cases "n \<in> name ` set (foundRecords db ps)")
        case False
        then have "filter (\<lambda>e. name e = n) (foundRecords db ps) = []"
          by (force simp: filter_empty_conv image_iff)
        then show ?thesis using snoc.IH False True n
          by (simp add: foundRecords_snoc Some incomeStep_def Let_def map_of_setProp
              runningSum_def orZero_def)
      next
        case inn: True
        then show ?thesis using snoc.IH True n
          by (simp add: foundRecords_snoc Some incomeStep_def Let_def map_of_setProp
              runningSum_snoc)
      qed
    qed
  qed
qed

lemma income_projection_own_names:
  "n \<notin> set objectPrototypeNames \<Longrightarrow>
     map_of (calculateIncome rnd plantDatabase g forestAge) n =
       (if n \<in> name ` set (foundRecords plantDatabase (plantsOf g))
        then Some (Amount (runningSum rnd (map (plantIncomeOf rnd forestAge)
               (filter (\<lambda>d. name d = n) (foundRecords plantDatabase (plantsOf g))))))
        else None)"
  using income_fold [of n rnd plantDatabase forestAge "plantsOf g"]
  by (simp add: calculateIncome_def)

text \<open>
  With no rounding: the income of a record is the product the claim gives where the
  maturity age is not zero; at maturity age zero the factor is 1 for a positive forest
  age and NaN at forest age zero; and a running sum of finite incomes is their sum.
\<close>

lemma plantIncomeOf_exact:
  "maturityAge d \<noteq> 0 \<Longrightarrow>
     plantIncomeOf Num (Num age) d
       = Num (yieldPerYear d * min 1 (age / maturityAge d) * marketPrice d)"
  by (simp add: plantIncomeOf_def fl_def Let_def)

lemma plantIncomeOf_zero_maturity:
  "0 < age \<Longrightarrow> maturityAge d = 0 \<Longrightarrow>
     plantIncomeOf Num (Num age) d = Num (yieldPerYear d * marketPrice d)"
  "maturityAge d = 0 \<Longrightarrow> plantIncomeOf rnd (Num 0) d = NaN"
  by (simp_all add: plantIncomeOf_def fl_def Let_def jinf_def)

lemma runningSum_exact: "runningSum Num (map Num rs) = Num (sum_list rs)"
proof (induction rs rule: rev_induct)
  case Nil
  then show ?case by (simp add: runningSum_def)
next
  case (snoc r rs)
  then show ?case by (simp add: runningSum_snoc orZero_def fl_def)
qed

end
